theory Spec2Isabelle
  imports Main
begin

section \<open>Values, errors and generation parameters\<close>

text \<open>
  The Python values that travel through the coordinator: messages, the outputs of the
  fan-out units and the combined results. \<open>PObj s\<close> stands for an object of any other
  type (a list, a message, a model instance); \<open>s\<close> is the text that \<open>str()\<close> gives
  for it.
\<close>

datatype pyval = PNone | PBool bool | PStr string | PObj string

fun py_str :: "pyval \<Rightarrow> string" where
  "py_str PNone = ''None''"
| "py_str (PBool True) = ''True''"
| "py_str (PBool False) = ''False''"
| "py_str (PStr s) = s"
| "py_str (PObj s) = s"

fun is_str :: "pyval \<Rightarrow> bool" where
  "is_str (PStr s) = True"
| "is_str v = False"

text \<open>Every raise of the source is a value: \<open>Inl e\<close> in a result of type \<open>error + 'a\<close>.\<close>

datatype error =
    ConfigurationError
  | AttributeError string
  | TypeError string
  | UnitFailure string

text \<open>
  The keyword arguments shared by the three generation methods, with the defaults of
  their signatures.
\<close>

record params =
  use_history :: bool
  max_iterations :: int
  model :: "string option"
  stop_sequences :: "string list option"
  max_tokens :: int
  parallel_tool_calls :: bool

definition default_params :: params where
  "default_params =
     \<lparr>use_history = True, max_iterations = 10, model = None, stop_sequences = None,
      max_tokens = 2048, parallel_tool_calls = True\<rparr>"

type_synonym response_model = string

section \<open>Collaborators\<close>

text \<open>
  An awaited call either raises or returns, and it may change the world outside the
  coordinator (the state of the units, of the provider, of the executor), of type \<open>'w\<close>.
\<close>

type_synonym ('a, 'w) awaited = "'w \<Rightarrow> (error + 'a) \<times> 'w"

text \<open>
  What a call of the reduction function hands back: a coroutine, which \<open>await\<close> runs,
  or a value that is not awaitable.
\<close>

datatype 'w returned = NotAwaitable pyval | Awaitable "'w \<Rightarrow> (error + pyval) \<times> 'w"

type_synonym 'w reduce_fn = "pyval list \<Rightarrow> 'w \<Rightarrow> (error + 'w returned) \<times> 'w"

text \<open>
  \<open>FanOut\<close> and \<open>FanInLLM\<close> are imported by the source; an object of either class is
  the record of its methods.
\<close>

record 'w FanOut =
  FanOut_generate :: "pyval \<Rightarrow> params \<Rightarrow> 'w \<Rightarrow> (error + pyval list) \<times> 'w"

record 'w FanInLLM =
  FanInLLM_generate :: "pyval list \<Rightarrow> params \<Rightarrow> 'w \<Rightarrow> (error + pyval) \<times> 'w"
  FanInLLM_generate_str :: "pyval list \<Rightarrow> params \<Rightarrow> 'w \<Rightarrow> (error + pyval) \<times> 'w"
  FanInLLM_generate_structured ::
    "pyval list \<Rightarrow> response_model \<Rightarrow> params \<Rightarrow> 'w \<Rightarrow> (error + pyval) \<times> 'w"

text \<open>
  An \<open>Agent\<close> or \<open>AugmentedLLM\<close> is known by what it generates from a message and the
  parameters, a fan-out function by what it returns for the message. The factory and
  the executor are handles the coordinator only passes on.
\<close>

type_synonym agent = "pyval \<Rightarrow> params \<Rightarrow> error + pyval"
type_synonym fan_out_function = "pyval \<Rightarrow> error + pyval"
type_synonym llm_factory = string
type_synonym executor = string

text \<open>
  The first constructor argument, \<open>Agent | AugmentedLLM | Callable[[FanInInput], Any]\<close>:
  \<open>isinstance(fan_in_agent, Callable)\<close> holds of the first alternative only. A plain
  function is a truthy object.
\<close>

datatype 'w fan_in_arg = Callable "'w reduce_fn" | AggregatorAgent agent

section \<open>The coordinator object\<close>

text \<open>
  An attribute of an instance is bound or not; reading an unbound attribute raises
  \<open>AttributeError\<close>. The attribute \<open>fan_in_fn\<close> is tested for truth by the methods, so
  its value may be \<open>None\<close>.
\<close>

datatype 'a attr = Unbound | Bound 'a

record 'w ParallelLLM =
  llm_factory :: "llm_factory option attr"
  fan_in_agent :: "'w fan_in_arg attr"
  fan_out_agents :: "agent list option attr"
  fan_out_functions :: "fan_out_function list option attr"
  history :: "pyval list option attr"
  fan_in_fn :: "'w reduce_fn option attr"
  fan_in :: "'w FanInLLM attr"
  fan_out :: "'w FanOut attr"

text \<open>
  \<open>ParallelLLM.__init__\<close>. The base class initialiser \<open>AugmentedLLM.__init__\<close> and the
  constructors \<open>FanInLLM(...)\<close> and \<open>FanOut(...)\<close> are parameters: \<open>super_init\<close> gives the
  instance as the base class leaves it, each constructor gives its object, and each of
  them may raise.
\<close>

definition ParallelLLM_init ::
  "(executor option \<Rightarrow> error + 'w ParallelLLM) \<Rightarrow>
   (agent \<Rightarrow> llm_factory option \<Rightarrow> executor option \<Rightarrow> error + 'w FanInLLM) \<Rightarrow>
   (agent list option \<Rightarrow> fan_out_function list option \<Rightarrow> llm_factory option \<Rightarrow>
      executor option \<Rightarrow> error + 'w FanOut) \<Rightarrow>
   'w fan_in_arg \<Rightarrow> agent list option \<Rightarrow> fan_out_function list option \<Rightarrow>
   llm_factory option \<Rightarrow> executor option \<Rightarrow> error + 'w ParallelLLM" where
  "ParallelLLM_init super_init new_FanInLLM new_FanOut
       fan_in_agent' fan_out_agents' fan_out_functions' llm_factory' executor' =
     (case super_init executor' of
        Inl e \<Rightarrow> Inl e
      | Inr self0 \<Rightarrow>
          let self1 = self0
                \<lparr>llm_factory := Bound llm_factory',
                 fan_in_agent := Bound fan_in_agent',
                 fan_out_agents := Bound fan_out_agents',
                 fan_out_functions := Bound fan_out_functions',
                 history := Bound None\<rparr>
          in
          (case (case fan_in_agent' of
                   Callable f \<Rightarrow> Inr (self1\<lparr>fan_in_fn := Bound (Some f)\<rparr>)
                 | AggregatorAgent a \<Rightarrow>
                     (case new_FanInLLM a llm_factory' executor' of
                        Inl e \<Rightarrow> Inl e
                      | Inr fi \<Rightarrow> Inr (self1\<lparr>fan_in := Bound fi\<rparr>))) of
             Inl e \<Rightarrow> Inl e
           | Inr self2 \<Rightarrow>
               (case new_FanOut fan_out_agents' fan_out_functions' llm_factory' executor' of
                  Inl e \<Rightarrow> Inl e
                | Inr fo \<Rightarrow> Inr (self2\<lparr>fan_out := Bound fo\<rparr>))))"

section \<open>Running a method\<close>

text \<open>
  A method runs in a state: the instance it is called on, the calls made on the
  collaborators so far, oldest first, and the world outside.
\<close>

datatype call =
    FanOut_generate_call pyval params
  | fan_in_fn_call "pyval list"
  | FanInLLM_generate_call "pyval list" params
  | FanInLLM_generate_str_call "pyval list" params
  | FanInLLM_generate_structured_call "pyval list" response_model params

record 'w state =
  self :: "'w ParallelLLM"
  calls :: "call list"
  world :: "'w"

definition getattr :: "string \<Rightarrow> 'a attr \<Rightarrow> 's \<Rightarrow> (error + 'a) \<times> 's" where
  "getattr name a s = (case a of Unbound \<Rightarrow> (Inl (AttributeError name), s) | Bound v \<Rightarrow> (Inr v, s))"

definition invoke :: "call \<Rightarrow> ('w \<Rightarrow> (error + 'a) \<times> 'w) \<Rightarrow> 'w state \<Rightarrow> (error + 'a) \<times> 'w state" where
  "invoke c act s =
     (case act (world s) of (r, w') \<Rightarrow> (r, s\<lparr>calls := calls s @ [c], world := w'\<rparr>))"

definition py_await :: "'w returned \<Rightarrow> 'w state \<Rightarrow> (error + pyval) \<times> 'w state" where
  "py_await r s =
     (case r of
        NotAwaitable v \<Rightarrow> (Inl (TypeError ''object can't be used in 'await' expression''), s)
      | Awaitable c \<Rightarrow> (case c (world s) of (x, w') \<Rightarrow> (x, s\<lparr>world := w'\<rparr>)))"

text \<open>Sequencing: a raise ends the method, with the state as it is then.\<close>

definition and_then ::
  "('s \<Rightarrow> (error + 'a) \<times> 's) \<Rightarrow> ('a \<Rightarrow> 's \<Rightarrow> (error + 'b) \<times> 's) \<Rightarrow> 's \<Rightarrow> (error + 'b) \<times> 's" where
  "and_then m k s = (case m s of (Inl e, s') \<Rightarrow> (Inl e, s') | (Inr a, s') \<Rightarrow> k a s')"

definition returning :: "'a \<Rightarrow> 's \<Rightarrow> (error + 'a) \<times> 's" where
  "returning v s = (Inr v, s)"

text \<open>The keyword arguments of a call, written keyword by keyword as the source does.\<close>

definition kwargs :: "bool \<Rightarrow> int \<Rightarrow> string option \<Rightarrow> string list option \<Rightarrow> int \<Rightarrow> bool \<Rightarrow> params" where
  "kwargs use_history' max_iterations' model' stop_sequences' max_tokens' parallel_tool_calls' =
     \<lparr>use_history = use_history', max_iterations = max_iterations', model = model',
      stop_sequences = stop_sequences', max_tokens = max_tokens',
      parallel_tool_calls = parallel_tool_calls'\<rparr>"

text \<open>\<open>await self.fan_out.generate(message=message, ...)\<close>, the first statement of each method.\<close>

definition fan_out_phase :: "pyval \<Rightarrow> params \<Rightarrow> 'w state \<Rightarrow> (error + pyval list) \<times> 'w state" where
  "fan_out_phase message p s =
     and_then (getattr ''fan_out'' (fan_out (self s)))
       (\<lambda>fo. invoke
          (FanOut_generate_call message
             (kwargs (use_history p) (max_iterations p) (model p) (stop_sequences p)
                (max_tokens p) (parallel_tool_calls p)))
          (FanOut_generate fo message
             (kwargs (use_history p) (max_iterations p) (model p) (stop_sequences p)
                (max_tokens p) (parallel_tool_calls p)))) s"

text \<open>\<open>await self.fan_in_fn(responses)\<close>: the attribute is read, called, and the result awaited.\<close>

definition await_fan_in_fn :: "pyval list \<Rightarrow> 'w state \<Rightarrow> (error + pyval) \<times> 'w state" where
  "await_fan_in_fn responses s =
     and_then (getattr ''fan_in_fn'' (fan_in_fn (self s)))
       (\<lambda>f. case f of
               None \<Rightarrow> (\<lambda>s'. (Inl (TypeError ''NoneType object is not callable''), s'))
             | Some fn \<Rightarrow> and_then (invoke (fan_in_fn_call responses) (fn responses)) py_await) s"

text \<open>\<open>if self.fan_in_fn:\<close> reads the attribute and tests the value for truth.\<close>

definition fan_in_fn_truthy :: "'w state \<Rightarrow> (error + bool) \<times> 'w state" where
  "fan_in_fn_truthy s =
     and_then (getattr ''fan_in_fn'' (fan_in_fn (self s)))
       (\<lambda>f. returning (case f of None \<Rightarrow> False | Some fn \<Rightarrow> True)) s"

definition ParallelLLM_generate :: "pyval \<Rightarrow> params \<Rightarrow> 'w state \<Rightarrow> (error + pyval) \<times> 'w state" where
  "ParallelLLM_generate message p s =
     and_then (fan_out_phase message p)
       (\<lambda>responses.
          and_then fan_in_fn_truthy
            (\<lambda>b. if b then await_fan_in_fn responses
                 else (\<lambda>s'. and_then (getattr ''fan_in'' (fan_in (self s')))
                        (\<lambda>fi. invoke
                           (FanInLLM_generate_call responses
                              (kwargs (use_history p) (max_iterations p) (model p)
                                 (stop_sequences p) (max_tokens p) (parallel_tool_calls p)))
                           (FanInLLM_generate fi responses
                              (kwargs (use_history p) (max_iterations p) (model p)
                                 (stop_sequences p) (max_tokens p) (parallel_tool_calls p)))) s'))) s"

definition ParallelLLM_generate_str :: "pyval \<Rightarrow> params \<Rightarrow> 'w state \<Rightarrow> (error + pyval) \<times> 'w state" where
  "ParallelLLM_generate_str message p s =
     and_then (fan_out_phase message p)
       (\<lambda>responses.
          and_then fan_in_fn_truthy
            (\<lambda>b. if b then and_then (await_fan_in_fn responses) (\<lambda>v. returning (PStr (py_str v)))
                 else (\<lambda>s'. and_then (getattr ''fan_in'' (fan_in (self s')))
                        (\<lambda>fi. invoke
                           (FanInLLM_generate_str_call responses
                              (kwargs (use_history p) (max_iterations p) (model p)
                                 (stop_sequences p) (max_tokens p) (parallel_tool_calls p)))
                           (FanInLLM_generate_str fi responses
                              (kwargs (use_history p) (max_iterations p) (model p)
                                 (stop_sequences p) (max_tokens p) (parallel_tool_calls p)))) s'))) s"

definition ParallelLLM_generate_structured ::
  "pyval \<Rightarrow> response_model \<Rightarrow> params \<Rightarrow> 'w state \<Rightarrow> (error + pyval) \<times> 'w state" where
  "ParallelLLM_generate_structured message response_model' p s =
     and_then (fan_out_phase message p)
       (\<lambda>responses.
          and_then fan_in_fn_truthy
            (\<lambda>b. if b then await_fan_in_fn responses
                 else (\<lambda>s'. and_then (getattr ''fan_in'' (fan_in (self s')))
                        (\<lambda>fi. invoke
                           (FanInLLM_generate_structured_call responses response_model'
                              (kwargs (use_history p) (max_iterations p) (model p)
                                 (stop_sequences p) (max_tokens p) (parallel_tool_calls p)))
                           (FanInLLM_generate_structured fi responses response_model'
                              (kwargs (use_history p) (max_iterations p) (model p)
                                 (stop_sequences p) (max_tokens p) (parallel_tool_calls p)))) s'))) s"

section \<open>The fan-out stage\<close>

text \<open>
  Modelled from the spec: the constructor and the \<open>generate\<close> method of \<open>FanOut\<close>, whose
  module is imported by the source and is not among the source files. The units are
  the configured agents followed by the configured functions; a function is invoked
  with the message alone. Configuring no unit is an error of the caller, signalled as
  \<open>ConfigurationError\<close>. Every unit gets the same message and parameters; the
  invocations run concurrently and complete in an order that the executor decides;
  the first failure met fails the stage; otherwise each output is kept with the index
  of its unit and the result lists the outputs by index.
\<close>

definition FanOut_units :: "agent list option \<Rightarrow> fan_out_function list option \<Rightarrow> agent list" where
  "FanOut_units agents functions =
     (case agents of None \<Rightarrow> [] | Some xs \<Rightarrow> xs) @
     map (\<lambda>f message p. f message) (case functions of None \<Rightarrow> [] | Some fs \<Rightarrow> fs)"

definition no_units :: "agent list option \<Rightarrow> fan_out_function list option \<Rightarrow> bool" where
  "no_units agents functions =
     (case FanOut_units agents functions of [] \<Rightarrow> True | u # us \<Rightarrow> False)"

text \<open>
  \<open>completion_order order n\<close>: \<open>order\<close> lists the \<open>n\<close> invocations, by the index of
  their unit, in the order in which they complete.
\<close>

definition completion_order :: "nat list \<Rightarrow> nat \<Rightarrow> bool" where
  "completion_order order n = (distinct order \<and> set order = {0..<n})"

fun gather :: "(nat \<times> (error + pyval)) list \<Rightarrow> error + (nat \<times> pyval) list" where
  "gather [] = Inr []"
| "gather ((i, Inl e) # cs) = Inl e"
| "gather ((i, Inr v) # cs) =
     (case gather cs of Inl e \<Rightarrow> Inl e | Inr vs \<Rightarrow> Inr ((i, v) # vs))"

definition FanOut_join :: "nat list \<Rightarrow> (error + pyval) list \<Rightarrow> error + pyval list" where
  "FanOut_join order outcomes =
     (case gather (map (\<lambda>i. (i, outcomes ! i)) (filter (\<lambda>i. i < length outcomes) order)) of
        Inl e \<Rightarrow> Inl e
      | Inr tagged \<Rightarrow> Inr (map snd (sort_key fst tagged)))"

definition FanOut_init ::
  "('w \<Rightarrow> nat list) \<Rightarrow> agent list option \<Rightarrow> fan_out_function list option \<Rightarrow>
   llm_factory option \<Rightarrow> executor option \<Rightarrow> error + 'w FanOut" where
  "FanOut_init schedule agents functions llm_factory' executor' =
     (if no_units agents functions then Inl ConfigurationError
      else Inr \<lparr>FanOut_generate =
             (\<lambda>message p w.
                (FanOut_join (schedule w)
                   (map (\<lambda>u. u message p) (FanOut_units agents functions)), w))\<rparr>)"

section \<open>Sequences of calls\<close>

datatype request =
    Generate pyval params
  | GenerateStr pyval params
  | GenerateStructured pyval response_model params

fun serve :: "request \<Rightarrow> 'w state \<Rightarrow> (error + pyval) \<times> 'w state" where
  "serve (Generate message p) s = ParallelLLM_generate message p s"
| "serve (GenerateStr message p) s = ParallelLLM_generate_str message p s"
| "serve (GenerateStructured message rm p) s = ParallelLLM_generate_structured message rm p s"

fun serve_all :: "request list \<Rightarrow> 'w state \<Rightarrow> 'w state" where
  "serve_all [] s = s"
| "serve_all (r # rs) s = serve_all rs (snd (serve r s))"

section \<open>Example configurations\<close>

text \<open>
  Concrete collaborators on which the model is run. The world is a counter of the
  awaited calls that have completed.
\<close>

definition base_instance :: "nat ParallelLLM" where
  "base_instance =
     \<lparr>llm_factory = Unbound, fan_in_agent = Unbound, fan_out_agents = Unbound,
      fan_out_functions = Unbound, history = Bound (Some []), fan_in_fn = Unbound,
      fan_in = Unbound, fan_out = Unbound\<rparr>"

definition base_init :: "executor option \<Rightarrow> error + nat ParallelLLM" where
  "base_init executor' = Inr base_instance"

definition unit_A :: agent where "unit_A message p = Inr (PStr ''A'')"
definition unit_B :: agent where "unit_B message p = Inr (PStr ''B'')"
definition unit_C :: agent where "unit_C message p = Inr (PStr ''C'')"
definition unit_failing :: agent where "unit_failing message p = Inl (UnitFailure ''provider'')"

fun bar_join :: "string list \<Rightarrow> string" where
  "bar_join [] = []"
| "bar_join [x] = x"
| "bar_join (x # y # ys) = x @ ''|'' @ bar_join (y # ys)"

definition join_fn :: "nat reduce_fn" where
  "join_fn responses w =
     (Inr (Awaitable (\<lambda>w'. (Inr (PStr (bar_join (map py_str responses))), Suc w'))), w)"

definition count_fn :: "nat reduce_fn" where
  "count_fn responses w =
     (Inr (Awaitable (\<lambda>w'. (Inr (PBool (2 \<le> length responses)), Suc w'))), w)"

definition aggregator :: agent where
  "aggregator message p = Inr (PObj (''summary of '' @ py_str message))"

definition new_aggregator :: "agent \<Rightarrow> llm_factory option \<Rightarrow> executor option \<Rightarrow> error + nat FanInLLM" where
  "new_aggregator a llm_factory' executor' =
     Inr \<lparr>FanInLLM_generate = (\<lambda>responses p w. (a (PStr (bar_join (map py_str responses))) p, Suc w)),
          FanInLLM_generate_str = (\<lambda>responses p w. (Inr (PStr ''text''), Suc w)),
          FanInLLM_generate_structured = (\<lambda>responses rm p w. (Inr (PObj rm), Suc w))\<rparr>"

definition fan_out_ABC :: "nat FanOut" where
  "fan_out_ABC =
     \<lparr>FanOut_generate = (\<lambda>message p w. (Inr [PStr ''A'', PStr ''B'', PStr ''C''], Suc w))\<rparr>"

definition fan_out_failing :: "nat FanOut" where
  "fan_out_failing =
     \<lparr>FanOut_generate = (\<lambda>message p w. (Inl (UnitFailure ''provider''), Suc w))\<rparr>"

text \<open>A fresh state on an instance with a reduction function.\<close>

definition with_function :: "nat reduce_fn \<Rightarrow> nat FanOut \<Rightarrow> nat state" where
  "with_function f fo =
     \<lparr>self = base_instance\<lparr>history := Bound None, fan_in_fn := Bound (Some f), fan_out := Bound fo\<rparr>,
      calls = [], world = 0\<rparr>"

text \<open>Reduction functions that return their value directly and not a coroutine.\<close>

definition count_sync :: "nat reduce_fn" where
  "count_sync responses w = (Inr (NotAwaitable (PBool (2 \<le> length responses))), w)"

definition join_sync :: "nat reduce_fn" where
  "join_sync responses w = (Inr (NotAwaitable (PStr (bar_join (map py_str responses)))), w)"

text \<open>
  Parameters that all differ from the defaults, and a fan-out stage that adds the token
  budget it is given to the counter.
\<close>

definition custom_params :: params where
  "custom_params =
     \<lparr>use_history = False, max_iterations = 3, model = Some ''small'',
      stop_sequences = Some [''END''], max_tokens = 64, parallel_tool_calls = False\<rparr>"

definition fan_out_metered :: "nat FanOut" where
  "fan_out_metered =
     \<lparr>FanOut_generate =
        (\<lambda>message p w. (Inr [PStr ''A'', PStr ''B''], w + nat (max_tokens p)))\<rparr>"

definition new_fan_out_metered ::
  "agent list option \<Rightarrow> fan_out_function list option \<Rightarrow> llm_factory option \<Rightarrow>
   executor option \<Rightarrow> error + nat FanOut" where
  "new_fan_out_metered agents functions llm_factory' executor' = Inr fan_out_metered"

text \<open>A schedule under which the third invocation completes first.\<close>

definition jitter :: "nat \<Rightarrow> nat list" where
  "jitter w = [2, 0, 1]"

section \<open>Basic facts\<close>

lemma kwargs_params [simp]:
  "kwargs (use_history p) (max_iterations p) (model p) (stop_sequences p)
     (max_tokens p) (parallel_tool_calls p) = p"
  by (simp add: kwargs_def)

lemma fan_out_phase_Bound:
  "fan_out (self s) = Bound fo \<Longrightarrow>
   fan_out_phase message p s =
     (case FanOut_generate fo message p (world s) of
        (r, w') \<Rightarrow> (r, s\<lparr>calls := calls s @ [FanOut_generate_call message p], world := w'\<rparr>))"
  by (simp add: fan_out_phase_def and_then_def getattr_def invoke_def)

lemma fan_out_phase_Unbound:
  "fan_out (self s) = Unbound \<Longrightarrow> fan_out_phase message p s = (Inl (AttributeError ''fan_out''), s)"
  by (simp add: fan_out_phase_def and_then_def getattr_def)

lemma fan_out_phase_Inl:
  "fan_out (self s) = Bound fo \<Longrightarrow> FanOut_generate fo message p (world s) = (Inl e, w') \<Longrightarrow>
   fan_out_phase message p s =
     (Inl e, s\<lparr>calls := calls s @ [FanOut_generate_call message p], world := w'\<rparr>)"
  by (simp add: fan_out_phase_Bound)

lemma fan_out_phase_Inr:
  "fan_out (self s) = Bound fo \<Longrightarrow> FanOut_generate fo message p (world s) = (Inr rs, w') \<Longrightarrow>
   fan_out_phase message p s =
     (Inr rs, s\<lparr>calls := calls s @ [FanOut_generate_call message p], world := w'\<rparr>)"
  by (simp add: fan_out_phase_Bound)

lemma fan_out_phase_self: "self (snd (fan_out_phase message p s)) = self s"
  by (simp add: fan_out_phase_def and_then_def getattr_def invoke_def split: attr.splits prod.splits)

lemma fan_in_fn_truthy_Some:
  "fan_in_fn (self s) = Bound (Some f) \<Longrightarrow> fan_in_fn_truthy s = (Inr True, s)"
  by (simp add: fan_in_fn_truthy_def and_then_def getattr_def returning_def)

lemma fan_in_fn_truthy_None:
  "fan_in_fn (self s) = Bound None \<Longrightarrow> fan_in_fn_truthy s = (Inr False, s)"
  by (simp add: fan_in_fn_truthy_def and_then_def getattr_def returning_def)

lemma fan_in_fn_truthy_Unbound:
  "fan_in_fn (self s) = Unbound \<Longrightarrow> fan_in_fn_truthy s = (Inl (AttributeError ''fan_in_fn''), s)"
  by (simp add: fan_in_fn_truthy_def and_then_def getattr_def)

lemma await_fan_in_fn_Some:
  "fan_in_fn (self s) = Bound (Some f) \<Longrightarrow>
   await_fan_in_fn responses s = and_then (invoke (fan_in_fn_call responses) (f responses)) py_await s"
  by (simp add: await_fan_in_fn_def and_then_def getattr_def)

lemma fn_combine_calls:
  "calls (snd (and_then (invoke (fan_in_fn_call responses) (f responses)) py_await s1)) =
     calls s1 @ [fan_in_fn_call responses]"
  by (simp add: and_then_def invoke_def py_await_def split: prod.splits sum.splits returned.splits)

lemma fn_combine_run:
  "f responses (world s1) = (Inr (Awaitable c), w2) \<Longrightarrow> c w2 = (x, w3) \<Longrightarrow>
   and_then (invoke (fan_in_fn_call responses) (f responses)) py_await s1 =
     (x, s1\<lparr>calls := calls s1 @ [fan_in_fn_call responses], world := w3\<rparr>)"
  by (simp add: and_then_def invoke_def py_await_def)

lemma generate_function:
  assumes "fan_out (self s) = Bound fo"
    and "FanOut_generate fo message p (world s) = (Inr responses, w1)"
    and "fan_in_fn (self s) = Bound (Some f)"
  shows "ParallelLLM_generate message p s =
           and_then (invoke (fan_in_fn_call responses) (f responses)) py_await
             (s\<lparr>calls := calls s @ [FanOut_generate_call message p], world := w1\<rparr>)"
  using assms
  by (simp add: ParallelLLM_generate_def and_then_def[of "fan_out_phase message p"]
      and_then_def[of fan_in_fn_truthy] fan_out_phase_Inr fan_in_fn_truthy_Some
      await_fan_in_fn_Some)

lemma generate_str_function:
  assumes "fan_out (self s) = Bound fo"
    and "FanOut_generate fo message p (world s) = (Inr responses, w1)"
    and "fan_in_fn (self s) = Bound (Some f)"
  shows "ParallelLLM_generate_str message p s =
           and_then (and_then (invoke (fan_in_fn_call responses) (f responses)) py_await)
             (\<lambda>v. returning (PStr (py_str v)))
             (s\<lparr>calls := calls s @ [FanOut_generate_call message p], world := w1\<rparr>)"
  using assms
  by (simp add: ParallelLLM_generate_str_def and_then_def[of "fan_out_phase message p"]
      and_then_def[of fan_in_fn_truthy] fan_out_phase_Inr fan_in_fn_truthy_Some
      await_fan_in_fn_Some and_then_def[of "await_fan_in_fn responses"]
      and_then_def[of "and_then (invoke (fan_in_fn_call responses) (f responses)) py_await"])

lemma generate_aggregator:
  assumes "fan_out (self s) = Bound fo"
    and "FanOut_generate fo message p (world s) = (Inr responses, w1)"
    and "fan_in_fn (self s) = Bound None"
    and "fan_in (self s) = Bound fi"
  shows "ParallelLLM_generate message p s =
           invoke (FanInLLM_generate_call responses p) (FanInLLM_generate fi responses p)
             (s\<lparr>calls := calls s @ [FanOut_generate_call message p], world := w1\<rparr>)"
    and "ParallelLLM_generate_str message p s =
           invoke (FanInLLM_generate_str_call responses p) (FanInLLM_generate_str fi responses p)
             (s\<lparr>calls := calls s @ [FanOut_generate_call message p], world := w1\<rparr>)"
    and "ParallelLLM_generate_structured message rm p s =
           invoke (FanInLLM_generate_structured_call responses rm p)
             (FanInLLM_generate_structured fi responses rm p)
             (s\<lparr>calls := calls s @ [FanOut_generate_call message p], world := w1\<rparr>)"
  using assms
  by (simp_all add: ParallelLLM_generate_def ParallelLLM_generate_str_def
      ParallelLLM_generate_structured_def and_then_def fan_out_phase_Inr
      fan_in_fn_truthy_None getattr_def)

lemma generate_unbound:
  assumes "fan_out (self s) = Bound fo"
    and "FanOut_generate fo message p (world s) = (Inr responses, w1)"
    and "fan_in_fn (self s) = Unbound"
  shows "ParallelLLM_generate message p s =
           (Inl (AttributeError ''fan_in_fn''),
            s\<lparr>calls := calls s @ [FanOut_generate_call message p], world := w1\<rparr>)"
    and "ParallelLLM_generate_str message p s =
           (Inl (AttributeError ''fan_in_fn''),
            s\<lparr>calls := calls s @ [FanOut_generate_call message p], world := w1\<rparr>)"
    and "ParallelLLM_generate_structured message rm p s =
           (Inl (AttributeError ''fan_in_fn''),
            s\<lparr>calls := calls s @ [FanOut_generate_call message p], world := w1\<rparr>)"
  using assms
  by (simp_all add: ParallelLLM_generate_def ParallelLLM_generate_str_def
      ParallelLLM_generate_structured_def and_then_def fan_out_phase_Inr
      fan_in_fn_truthy_Unbound)

lemma invoke_calls: "calls (snd (invoke c act s)) = calls s @ [c]"
  by (simp add: invoke_def split: prod.splits)

lemma invoke_world: "world (snd (invoke c act s)) = snd (act (world s))"
  by (simp add: invoke_def split: prod.splits)

lemma invoke_fst: "fst (invoke c act s) = fst (act (world s))"
  by (simp add: invoke_def split: prod.splits)

section \<open>Failure of the fan-out phase\<close>

text \<open>
  C2: in each of \<open>generate\<close>, \<open>generate_str\<close> and \<open>generate_structured\<close>, when the awaited
  \<open>fan_out.generate\<close> raises \<open>e\<close>, the call raises \<open>e\<close>; the only call made on a
  collaborator is the one on the fan-out stage, and the world is as that call left it:
  neither the reduction function nor the aggregator is invoked.
\<close>

theorem fan_out_failure_fails_call:
  assumes "fan_out (self s) = Bound fo"
    and "FanOut_generate fo message p (world s) = (Inl e, w')"
  shows "ParallelLLM_generate message p s =
           (Inl e, s\<lparr>calls := calls s @ [FanOut_generate_call message p], world := w'\<rparr>)
       \<and> ParallelLLM_generate_str message p s =
           (Inl e, s\<lparr>calls := calls s @ [FanOut_generate_call message p], world := w'\<rparr>)
       \<and> ParallelLLM_generate_structured message rm p s =
           (Inl e, s\<lparr>calls := calls s @ [FanOut_generate_call message p], world := w'\<rparr>)"
  using assms
  by (simp add: ParallelLLM_generate_def ParallelLLM_generate_str_def
      ParallelLLM_generate_structured_def and_then_def fan_out_phase_Inl)

theorem fan_out_failure_fails_call_witness:
  "fan_out (self (with_function join_fn fan_out_failing)) = Bound fan_out_failing
   \<and> FanOut_generate fan_out_failing (PStr ''X'') default_params
        (world (with_function join_fn fan_out_failing)) = (Inl (UnitFailure ''provider''), 1)
   \<and> fst (ParallelLLM_generate (PStr ''X'') default_params (with_function join_fn fan_out_failing))
        = Inl (UnitFailure ''provider'')
   \<and> calls (snd (ParallelLLM_generate (PStr ''X'') default_params
        (with_function join_fn fan_out_failing)))
        = [FanOut_generate_call (PStr ''X'') default_params]
   \<and> calls (snd (ParallelLLM_generate_str (PStr ''X'') default_params
        (with_function join_fn fan_out_failing)))
        = [FanOut_generate_call (PStr ''X'') default_params]
   \<and> calls (snd (ParallelLLM_generate_structured (PStr ''X'') ''Verdict'' default_params
        (with_function join_fn fan_out_failing)))
        = [FanOut_generate_call (PStr ''X'') default_params]"
proof -
  have h1: "fan_out (self (with_function join_fn fan_out_failing)) = Bound fan_out_failing"
    by (simp add: with_function_def)
  have h2: "FanOut_generate fan_out_failing (PStr ''X'') default_params
              (world (with_function join_fn fan_out_failing)) = (Inl (UnitFailure ''provider''), 1)"
    by (simp add: with_function_def fan_out_failing_def)
  show ?thesis
    using fan_out_failure_fails_call [OF h1 h2, of "''Verdict''"] h1 h2
    by (simp add: with_function_def)
qed

section \<open>The structured mode under a reduction function\<close>

text \<open>
  C10: on an instance whose \<open>fan_in_fn\<close> is bound to a function, \<open>generate_structured\<close>
  and \<open>generate\<close>, run from the same state with the same message and parameters, give
  the same result and the same final state, whatever the response model.
\<close>

theorem structured_equals_generate:
  assumes "fan_in_fn (self s) = Bound (Some f)"
  shows "ParallelLLM_generate_structured message rm p s = ParallelLLM_generate message p s"
proof -
  have "self (snd (fan_out_phase message p s)) = self s" by (rule fan_out_phase_self)
  obtain r s1 where r: "fan_out_phase message p s = (r, s1)" by (cases "fan_out_phase message p s")
  with fan_out_phase_self[of message p s] have "self s1 = self s" by simp
  with assms have "fan_in_fn_truthy s1 = (Inr True, s1)" by (simp add: fan_in_fn_truthy_Some)
  then show ?thesis using r
    by (simp add: ParallelLLM_generate_def ParallelLLM_generate_structured_def and_then_def split: sum.splits)
qed

theorem structured_equals_generate_witness:
  "fan_in_fn (self (with_function count_fn fan_out_ABC)) = Bound (Some count_fn)
   \<and> fst (ParallelLLM_generate (PStr ''X'') default_params (with_function count_fn fan_out_ABC))
        = Inr (PBool True)
   \<and> fst (ParallelLLM_generate_structured (PStr ''X'') ''Verdict'' default_params
        (with_function count_fn fan_out_ABC)) = Inr (PBool True)"
proof -
  have h: "fan_in_fn (self (with_function count_fn fan_out_ABC)) = Bound (Some count_fn)"
    by (simp add: with_function_def)
  have g: "fst (ParallelLLM_generate (PStr ''X'') default_params (with_function count_fn fan_out_ABC))
             = Inr (PBool True)"
    by (simp add: ParallelLLM_generate_def and_then_def fan_out_phase_def getattr_def invoke_def
        fan_in_fn_truthy_def await_fan_in_fn_def py_await_def returning_def with_function_def
        fan_out_ABC_def count_fn_def)
  show ?thesis
    using structured_equals_generate [OF h, of "PStr ''X''" "''Verdict''" default_params] h g
    by simp
qed

section \<open>More facts about the three methods\<close>

lemma generate_structured_function:
  assumes "fan_out (self s) = Bound fo"
    and "FanOut_generate fo message p (world s) = (Inr responses, w1)"
    and "fan_in_fn (self s) = Bound (Some f)"
  shows "ParallelLLM_generate_structured message rm p s =
           and_then (invoke (fan_in_fn_call responses) (f responses)) py_await
             (s\<lparr>calls := calls s @ [FanOut_generate_call message p], world := w1\<rparr>)"
  using assms
  by (simp add: ParallelLLM_generate_structured_def and_then_def[of "fan_out_phase message p"]
      and_then_def[of fan_in_fn_truthy] fan_out_phase_Inr fan_in_fn_truthy_Some
      await_fan_in_fn_Some)

lemma and_then_returning_snd: "snd (and_then m (\<lambda>v. returning (g v)) s) = snd (m s)"
  by (simp add: and_then_def returning_def split: prod.splits sum.splits)

lemma str_combine_calls:
  "calls (snd (and_then (and_then (invoke (fan_in_fn_call responses) (f responses)) py_await)
                 (\<lambda>v. returning (PStr (py_str v))) s1)) =
     calls s1 @ [fan_in_fn_call responses]"
  by (simp add: and_then_returning_snd fn_combine_calls)

lemma and_then_self:
  assumes "\<And>s. self (snd (m s)) = self s" and "\<And>a s. self (snd (k a s)) = self s"
  shows "self (snd (and_then m k s)) = self s"
proof (cases "m s")
  case (Pair r s')
  with assms(1) [of s] have "self s' = self s" by simp
  with Pair assms(2) show ?thesis
    by (cases r) (simp_all add: and_then_def)
qed

lemma getattr_self: "self (snd (getattr name a s)) = self s"
  by (simp add: getattr_def split: attr.splits)

lemma invoke_self: "self (snd (invoke c act s)) = self s"
  by (simp add: invoke_def split: prod.splits)

lemma py_await_self: "self (snd (py_await r s)) = self s"
  by (simp add: py_await_def split: returned.splits prod.splits)

lemma returning_self: "self (snd (returning v s)) = self s"
  by (simp add: returning_def)

lemma fan_in_fn_truthy_self: "self (snd (fan_in_fn_truthy s)) = self s"
  unfolding fan_in_fn_truthy_def by (intro and_then_self getattr_self returning_self)

lemma await_fan_in_fn_self: "self (snd (await_fan_in_fn responses s)) = self s"
  unfolding await_fan_in_fn_def
  by (rule and_then_self [OF getattr_self])
    (simp add: and_then_self invoke_self py_await_self split: option.splits)

lemma aggregator_branch_self:
  "self (snd (and_then (getattr ''fan_in'' (fan_in (self s))) (\<lambda>fi. invoke (c fi) (act fi)) s))
     = self s"
  by (intro and_then_self getattr_self invoke_self)

lemma generate_self: "self (snd (ParallelLLM_generate message p s)) = self s"
  unfolding ParallelLLM_generate_def
  by (intro and_then_self fan_out_phase_self fan_in_fn_truthy_self)
    (simp add: await_fan_in_fn_self aggregator_branch_self)

lemma generate_str_self: "self (snd (ParallelLLM_generate_str message p s)) = self s"
  unfolding ParallelLLM_generate_str_def
  by (intro and_then_self fan_out_phase_self fan_in_fn_truthy_self)
    (simp add: and_then_self await_fan_in_fn_self returning_self aggregator_branch_self)

lemma generate_structured_self:
  "self (snd (ParallelLLM_generate_structured message rm p s)) = self s"
  unfolding ParallelLLM_generate_structured_def
  by (intro and_then_self fan_out_phase_self fan_in_fn_truthy_self)
    (simp add: await_fan_in_fn_self aggregator_branch_self)

lemma serve_self: "self (snd (serve r s)) = self s"
  by (cases r) (simp_all add: generate_self generate_str_self generate_structured_self)

lemma serve_all_self: "self (serve_all rs s) = self s"
  by (induction rs arbitrary: s) (simp_all add: serve_self)

lemma init_history:
  "ParallelLLM_init super_init new_FanInLLM new_FanOut fia agents functions lf ex = Inr inst
   \<Longrightarrow> history inst = Bound None"
  by (auto simp: ParallelLLM_init_def Let_def split: sum.splits fan_in_arg.splits)

lemma and_then_fst_str:
  "fst (and_then m (\<lambda>v. returning (PStr (g v))) s) = Inr r \<Longrightarrow> is_str r"
  by (auto simp: and_then_def returning_def split: prod.splits sum.splits)

lemma generate_str_is_str:
  assumes "fan_in_fn (self s) = Bound (Some f)"
    and "fst (ParallelLLM_generate_str message p s) = Inr r"
  shows "is_str r"
proof -
  obtain r0 s1 where r: "fan_out_phase message p s = (r0, s1)"
    by (cases "fan_out_phase message p s")
  with fan_out_phase_self [of message p s] have "self s1 = self s" by simp
  with assms(1) have t: "fan_in_fn_truthy s1 = (Inr True, s1)"
    by (simp add: fan_in_fn_truthy_Some)
  show ?thesis
  proof (cases r0)
    case (Inl e)
    with r assms(2) show ?thesis
      by (simp add: ParallelLLM_generate_str_def and_then_def)
  next
    case (Inr rs)
    with r t assms(2)
    have "fst (and_then (await_fan_in_fn rs) (\<lambda>v. returning (PStr (py_str v))) s1) = Inr r"
      by (simp add: ParallelLLM_generate_str_def and_then_def [of "fan_out_phase message p"]
          and_then_def [of fan_in_fn_truthy])
    then show ?thesis by (rule and_then_fst_str)
  qed
qed

section \<open>No history at the coordinator\<close>

text \<open>
  C6: an instance that \<open>__init__\<close> returns has \<open>history\<close> bound to \<open>None\<close>, whatever
  the base class bound it to, and any sequence of calls of the three methods leaves the
  instance, and so its \<open>history\<close>, as it was: the world outside changes only through the
  calls on the collaborators.
\<close>

theorem no_history:
  assumes "ParallelLLM_init super_init new_FanInLLM new_FanOut fia agents functions lf ex = Inr inst"
    and "self s = inst"
  shows "history inst = Bound None
       \<and> self (serve_all requests s) = inst
       \<and> history (self (serve_all requests s)) = Bound None"
  using assms by (simp add: serve_all_self init_history)

theorem no_history_witness:
  "(case ParallelLLM_init base_init new_aggregator (FanOut_init jitter) (Callable join_fn)
           (Some [unit_A, unit_B, unit_C]) None None None of
      Inl e \<Rightarrow> False
    | Inr inst \<Rightarrow>
        history inst = Bound None
        \<and> history (self (serve_all
             [Generate (PStr ''X'') default_params, GenerateStr (PStr ''Y'') default_params]
             \<lparr>self = inst, calls = [], world = 0\<rparr>)) = Bound None)"
proof -
  obtain inst where i: "ParallelLLM_init base_init new_aggregator (FanOut_init jitter)
      (Callable join_fn) (Some [unit_A, unit_B, unit_C]) None None None = Inr inst"
    by (simp add: ParallelLLM_init_def base_init_def FanOut_init_def no_units_def FanOut_units_def)
  have s: "self \<lparr>self = inst, calls = [], world = 0::nat\<rparr> = inst" by simp
  show ?thesis
    using no_history [OF i s, of "[Generate (PStr ''X'') default_params,
      GenerateStr (PStr ''Y'') default_params]"]
    by (simp add: i)
qed

section \<open>Construction without units\<close>

lemma init_fails_without_units:
  assumes "no_units agents functions"
  shows "ParallelLLM_init super_init new_FanInLLM (FanOut_init schedule) fia agents functions lf ex
         = (case super_init ex of
              Inl e \<Rightarrow> Inl e
            | Inr self0 \<Rightarrow>
                (case fia of
                   Callable f \<Rightarrow> Inl ConfigurationError
                 | AggregatorAgent a \<Rightarrow>
                     (case new_FanInLLM a lf ex of
                        Inl e \<Rightarrow> Inl e
                      | Inr fi \<Rightarrow> Inl ConfigurationError)))"
  using assms
  by (simp add: ParallelLLM_init_def FanOut_init_def Let_def
      split: sum.splits fan_in_arg.splits)

text \<open>
  C8: when neither agents nor functions give a unit, \<^verbatim>\<open>__init__\<close> never returns an instance;
  provided the initialiser of the base class and the construction of the aggregator wrapper,
  which run first, return, the error raised is \<^verbatim>\<open>ConfigurationError\<close>, from the constructor of
  the fan-out stage.
\<close>

theorem no_units_ConfigurationError:
  assumes "no_units agents functions"
  shows "(\<exists>e. ParallelLLM_init super_init new_FanInLLM (FanOut_init schedule) fia agents
                functions lf ex = Inl e)
       \<and> (super_init ex = Inr self0
            \<and> (\<forall>a. fia = AggregatorAgent a \<longrightarrow> (\<exists>fi. new_FanInLLM a lf ex = Inr fi))
          \<longrightarrow> ParallelLLM_init super_init new_FanInLLM (FanOut_init schedule) fia agents
                functions lf ex = Inl ConfigurationError)"
  by (auto simp: init_fails_without_units [OF assms] split: sum.splits fan_in_arg.splits)

text \<open>
  An instance of the statement for each kind of fan-in argument, with an empty list of functions
  and with an empty list of agents.
\<close>

theorem no_units_ConfigurationError_witness:
  "no_units None (Some [])
   \<and> ParallelLLM_init base_init new_aggregator (FanOut_init jitter) (Callable join_fn)
        None (Some []) None None = Inl ConfigurationError
   \<and> ParallelLLM_init base_init new_aggregator (FanOut_init jitter) (AggregatorAgent aggregator)
        (Some []) None None None = Inl ConfigurationError"
proof -
  have n1: "no_units None (Some [])" and n2: "no_units (Some []) None"
    by (simp_all add: no_units_def FanOut_units_def)
  have b: "base_init None = Inr base_instance" by (simp add: base_init_def)
  have c: "\<forall>a. (Callable join_fn :: nat fan_in_arg) = AggregatorAgent a \<longrightarrow>
             (\<exists>fi. new_aggregator a None None = Inr fi)" by simp
  have d: "\<forall>a. (AggregatorAgent aggregator :: nat fan_in_arg) = AggregatorAgent a \<longrightarrow>
             (\<exists>fi. new_aggregator a None None = Inr fi)" by (simp add: new_aggregator_def)
  show ?thesis
    using no_units_ConfigurationError [OF n1, of base_init new_aggregator jitter
        "Callable join_fn" None None base_instance]
      no_units_ConfigurationError [OF n2, of base_init new_aggregator jitter
        "AggregatorAgent aggregator" None None base_instance]
      n1 b c d
    by blast
qed

section \<open>Order of the fan-out results\<close>

lemma gather_all_ok:
  "gather (map (\<lambda>i. (i, Inr (g i))) xs) = Inr (map (\<lambda>i. (i, g i)) xs)"
  by (induction xs) simp_all

lemma insort_key_tagged:
  "insort_key fst (a, g a) (map (\<lambda>i. (i, g i)) ys) = map (\<lambda>i. (i, g i)) (insort a ys)"
  by (induction ys) simp_all

lemma sort_key_tagged:
  "sort_key fst (map (\<lambda>i. (i, g i)) xs) = map (\<lambda>i. (i, g i)) (sort xs)"
  by (induction xs) (simp_all add: insort_key_tagged)

lemma sort_completion_order:
  assumes "completion_order order n"
  shows "sort order = [0..<n]"
proof (rule sorted_distinct_set_unique)
  show "sorted (sort order)" by simp
  show "distinct (sort order)" using assms by (simp add: completion_order_def)
  show "sorted [0..<n]" by simp
  show "distinct [0..<n]" by simp
  show "set (sort order) = set [0..<n]" using assms by (simp add: completion_order_def)
qed

lemma FanOut_join_all_ok:
  assumes "completion_order order (length vs)"
  shows "FanOut_join order (map Inr vs) = Inr vs"
proof -
  from assms have in_range: "\<forall>i \<in> set order. i < length vs"
    by (simp add: completion_order_def)
  then have f: "filter (\<lambda>i. i < length (map Inr vs :: (error + pyval) list)) order = order"
    by simp
  from in_range
  have m: "map (\<lambda>i. (i, (map Inr vs :: (error + pyval) list) ! i)) order
           = map (\<lambda>i. (i, Inr (vs ! i))) order"
    by simp
  have "map snd (map (\<lambda>i. (i, vs ! i)) [0..<length vs]) = vs"
    by (simp add: comp_def map_nth)
  then show ?thesis
    unfolding FanOut_join_def f m gather_all_ok
    by (simp add: sort_key_tagged sort_completion_order [OF assms])
qed

lemma FanOut_init_Inr:
  assumes "FanOut_init schedule agents functions lf ex = Inr fo"
  shows "\<not> no_units agents functions"
    and "FanOut_generate fo message p w =
           (FanOut_join (schedule w)
              (map (\<lambda>u. u message p) (FanOut_units agents functions)), w)"
  using assms by (auto simp: FanOut_init_def split: if_splits)

text \<open>
  C9: a fan-out stage of N units, N at least one, whose units all return, gives a list of
  length N whose element at index i is the output of the i-th configured unit, for every order
  in which the units complete.
\<close>

theorem fan_out_configuration_order:
  assumes "FanOut_init schedule agents functions lf ex = Inr fo"
    and "completion_order (schedule w) (length (FanOut_units agents functions))"
    and "map (\<lambda>u. u message p) (FanOut_units agents functions) = map Inr vs"
  shows "FanOut_generate fo message p w = (Inr vs, w)
       \<and> length vs = length (FanOut_units agents functions)
       \<and> 1 \<le> length vs
       \<and> (\<forall>i < length vs. (FanOut_units agents functions ! i) message p = Inr (vs ! i))"
proof -
  from assms(3) have len: "length vs = length (FanOut_units agents functions)"
    by (metis length_map)
  from FanOut_init_Inr(1) [OF assms(1)] have "FanOut_units agents functions \<noteq> []"
    by (auto simp: no_units_def split: list.splits)
  with len have pos: "1 \<le> length vs" by (cases vs) auto
  from assms(2) len have "completion_order (schedule w) (length vs)" by simp
  then have "FanOut_join (schedule w) (map Inr vs) = Inr vs" by (rule FanOut_join_all_ok)
  with FanOut_init_Inr(2) [OF assms(1), of message p w] assms(3)
  have run: "FanOut_generate fo message p w = (Inr vs, w)" by simp
  have "(FanOut_units agents functions ! i) message p = Inr (vs ! i)" if "i < length vs" for i
  proof -
    from that len
    have "map (\<lambda>u. u message p) (FanOut_units agents functions) ! i
            = (FanOut_units agents functions ! i) message p"
      by simp
    moreover from that have "map Inr vs ! i = (Inr (vs ! i) :: error + pyval)" by simp
    ultimately show ?thesis using assms(3) by simp
  qed
  with run len pos show ?thesis by simp
qed

text \<open>
  Three units completing in the order third, first, second.
\<close>

theorem fan_out_configuration_order_witness:
  "(case FanOut_init jitter (Some [unit_A, unit_B]) (Some [\<lambda>message. Inr (PStr ''C'')])
           None None of
      Inl e \<Rightarrow> False
    | Inr fo \<Rightarrow>
        completion_order (jitter 0) 3
        \<and> FanOut_generate fo (PStr ''X'') default_params (0::nat)
            = (Inr [PStr ''A'', PStr ''B'', PStr ''C''], 0))"
proof -
  obtain fo :: "nat FanOut" where
    i: "FanOut_init jitter (Some [unit_A, unit_B]) (Some [\<lambda>message. Inr (PStr ''C'')])
          None None = Inr fo"
    by (simp add: FanOut_init_def no_units_def FanOut_units_def)
  have c: "completion_order (jitter 0)
             (length (FanOut_units (Some [unit_A, unit_B]) (Some [\<lambda>message. Inr (PStr ''C'')])))"
    by (auto simp: completion_order_def jitter_def FanOut_units_def)
  have o: "map (\<lambda>u. u (PStr ''X'') default_params)
             (FanOut_units (Some [unit_A, unit_B]) (Some [\<lambda>message. Inr (PStr ''C'')]))
           = map Inr [PStr ''A'', PStr ''B'', PStr ''C'']"
    by (simp add: FanOut_units_def unit_A_def unit_B_def)
  have c3: "completion_order (jitter 0) 3"
    by (auto simp: completion_order_def jitter_def)
  show ?thesis
    using fan_out_configuration_order [OF i c o] c3 by (simp add: i)
qed

section \<open>Selection of the fan-in strategy\<close>

lemma init_Callable:
  assumes "super_init ex = Inr self0"
    and "new_FanOut agents fns lf ex = Inr fo"
  shows "ParallelLLM_init super_init new_FanInLLM new_FanOut (Callable f) agents fns lf ex
         = Inr (self0\<lparr>llm_factory := Bound lf, fan_in_agent := Bound (Callable f),
                  fan_out_agents := Bound agents, fan_out_functions := Bound fns,
                  history := Bound None, fan_in_fn := Bound (Some f), fan_out := Bound fo\<rparr>)"
  using assms by (simp add: ParallelLLM_init_def)

lemma init_AggregatorAgent:
  assumes "super_init ex = Inr self0"
    and "new_FanInLLM a lf ex = Inr fi"
    and "new_FanOut agents fns lf ex = Inr fo"
  shows "ParallelLLM_init super_init new_FanInLLM new_FanOut (AggregatorAgent a) agents
           fns lf ex
         = Inr (self0\<lparr>llm_factory := Bound lf, fan_in_agent := Bound (AggregatorAgent a),
                  fan_out_agents := Bound agents, fan_out_functions := Bound fns,
                  history := Bound None, fan_in := Bound fi, fan_out := Bound fo\<rparr>)"
  using assms by (simp add: ParallelLLM_init_def)

lemma aggregator_instance_raises:
  assumes "super_init ex = Inr self0"
    and "fan_in_fn self0 = Unbound"
    and "ParallelLLM_init super_init new_FanInLLM new_FanOut (AggregatorAgent a) agents
           fns lf ex = Inr inst"
    and "new_FanOut agents fns lf ex = Inr fo"
    and "self s = inst"
    and "FanOut_generate fo message p (world s) = (Inr responses, w1)"
  shows "ParallelLLM_generate message p s =
           (Inl (AttributeError ''fan_in_fn''),
            s\<lparr>calls := calls s @ [FanOut_generate_call message p], world := w1\<rparr>)"
    and "ParallelLLM_generate_str message p s =
           (Inl (AttributeError ''fan_in_fn''),
            s\<lparr>calls := calls s @ [FanOut_generate_call message p], world := w1\<rparr>)"
    and "ParallelLLM_generate_structured message rm p s =
           (Inl (AttributeError ''fan_in_fn''),
            s\<lparr>calls := calls s @ [FanOut_generate_call message p], world := w1\<rparr>)"
proof -
  from assms(1,3,4) have "fan_in_fn inst = fan_in_fn self0 \<and> fan_out inst = Bound fo"
    by (auto simp: ParallelLLM_init_def split: sum.splits)
  with assms(2,5) have u: "fan_in_fn (self s) = Unbound" and b: "fan_out (self s) = Bound fo"
    by simp_all
  show "ParallelLLM_generate message p s =
           (Inl (AttributeError ''fan_in_fn''),
            s\<lparr>calls := calls s @ [FanOut_generate_call message p], world := w1\<rparr>)"
    by (rule generate_unbound(1) [OF b assms(6) u])
  show "ParallelLLM_generate_str message p s =
           (Inl (AttributeError ''fan_in_fn''),
            s\<lparr>calls := calls s @ [FanOut_generate_call message p], world := w1\<rparr>)"
    by (rule generate_unbound(2) [OF b assms(6) u])
  show "ParallelLLM_generate_structured message rm p s =
           (Inl (AttributeError ''fan_in_fn''),
            s\<lparr>calls := calls s @ [FanOut_generate_call message p], world := w1\<rparr>)"
    by (rule generate_unbound(3) [OF b assms(6) u])
qed

lemma function_instance_routes:
  assumes "ParallelLLM_init super_init new_FanInLLM new_FanOut (Callable f) agents
           fns lf ex = Inr inst"
  shows "fan_in_fn inst = Bound (Some f)"
  using assms by (auto simp: ParallelLLM_init_def Let_def split: sum.splits)

text \<open>
  C1: \<^verbatim>\<open>__init__\<close> binds \<^verbatim>\<open>fan_in_fn\<close> only when the fan-in argument is callable, and
  \<^verbatim>\<open>fan_in\<close> only when it is not, while each of the three methods reads \<^verbatim>\<open>fan_in_fn\<close> first.
  An instance built with an aggregator agent over three units therefore runs the fan-out stage
  and then raises \<^verbatim>\<open>AttributeError\<close> in all three methods; the aggregator is bound but is never
  invoked.
\<close>

theorem aggregator_instance_AttributeError:
  "(case ParallelLLM_init base_init new_aggregator (FanOut_init jitter)
           (AggregatorAgent aggregator) (Some [unit_A, unit_B, unit_C]) None None None of
      Inl e \<Rightarrow> False
    | Inr inst \<Rightarrow>
        fan_in inst \<noteq> Unbound
        \<and> fst (ParallelLLM_generate (PStr ''X'') default_params
             \<lparr>self = inst, calls = [], world = 0\<rparr>) = Inl (AttributeError ''fan_in_fn'')
        \<and> calls (snd (ParallelLLM_generate (PStr ''X'') default_params
             \<lparr>self = inst, calls = [], world = 0\<rparr>))
            = [FanOut_generate_call (PStr ''X'') default_params]
        \<and> fst (ParallelLLM_generate_str (PStr ''X'') default_params
             \<lparr>self = inst, calls = [], world = 0\<rparr>) = Inl (AttributeError ''fan_in_fn'')
        \<and> fst (ParallelLLM_generate_structured (PStr ''X'') ''Verdict'' default_params
             \<lparr>self = inst, calls = [], world = 0\<rparr>) = Inl (AttributeError ''fan_in_fn''))"
proof -
  obtain fo :: "nat FanOut" where
    fo: "FanOut_init jitter (Some [unit_A, unit_B, unit_C]) None None None = Inr fo"
    by (simp add: FanOut_init_def no_units_def FanOut_units_def)
  obtain fi :: "nat FanInLLM" where fi: "new_aggregator aggregator None None = Inr fi"
    by (simp add: new_aggregator_def)
  have b: "base_init None = Inr base_instance" by (simp add: base_init_def)
  have u: "fan_in_fn base_instance = Unbound" by (simp add: base_instance_def)
  note i = init_AggregatorAgent [where super_init = base_init and new_FanInLLM = new_aggregator
      and new_FanOut = "FanOut_init jitter" and ex = None and lf = None and a = aggregator
      and agents = "Some [unit_A, unit_B, unit_C]" and fns = None, OF b fi fo]
  have c: "completion_order (jitter 0) (length [PStr ''A'', PStr ''B'', PStr ''C''])"
    by (auto simp: completion_order_def jitter_def)
  have "FanOut_generate fo (PStr ''X'') default_params 0
          = (FanOut_join (jitter 0) (map Inr [PStr ''A'', PStr ''B'', PStr ''C'']), 0)"
    using FanOut_init_Inr(2) [OF fo, of "PStr ''X''" default_params 0]
    by (simp add: FanOut_units_def unit_A_def unit_B_def unit_C_def)
  moreover have "FanOut_join (jitter 0) (map Inr [PStr ''A'', PStr ''B'', PStr ''C''])
          = Inr [PStr ''A'', PStr ''B'', PStr ''C'']"
    by (rule FanOut_join_all_ok [OF c])
  ultimately have r: "FanOut_generate fo (PStr ''X'') default_params 0
          = (Inr [PStr ''A'', PStr ''B'', PStr ''C''], 0)"
    by (simp only:)
  let ?inst = "base_instance\<lparr>llm_factory := Bound None,
      fan_in_agent := Bound (AggregatorAgent aggregator),
      fan_out_agents := Bound (Some [unit_A, unit_B, unit_C]), fan_out_functions := Bound None,
      history := Bound None, fan_in := Bound fi, fan_out := Bound fo\<rparr>"
  let ?s = "\<lparr>self = ?inst, calls = [], world = 0::nat\<rparr>"
  have s: "self ?s = ?inst" by simp
  have w: "FanOut_generate fo (PStr ''X'') default_params (world ?s)
             = (Inr [PStr ''A'', PStr ''B'', PStr ''C''], 0)"
    using r by simp
  show ?thesis
    using aggregator_instance_raises [where super_init = base_init
        and new_FanInLLM = new_aggregator and new_FanOut = "FanOut_init jitter" and ex = None
        and lf = None and a = aggregator and agents = "Some [unit_A, unit_B, unit_C]"
        and fns = None, OF b u i fo s w]
    by (simp add: i)
qed

section \<open>The combining step with a reduction function\<close>

lemma fn_combine_total:
  "and_then (invoke (fan_in_fn_call responses) (f responses)) py_await s1 =
     (case f responses (world s1) of
        (Inl e, w2) \<Rightarrow>
          (Inl e, s1\<lparr>calls := calls s1 @ [fan_in_fn_call responses], world := w2\<rparr>)
      | (Inr (NotAwaitable v), w2) \<Rightarrow>
          (Inl (TypeError ''object can't be used in 'await' expression''),
           s1\<lparr>calls := calls s1 @ [fan_in_fn_call responses], world := w2\<rparr>)
      | (Inr (Awaitable c), w2) \<Rightarrow>
          (case c w2 of
             (x, w3) \<Rightarrow> (x, s1\<lparr>calls := calls s1 @ [fan_in_fn_call responses], world := w3\<rparr>)))"
  by (simp add: and_then_def invoke_def py_await_def
      split: prod.splits sum.splits returned.splits)

lemma str_combine_total:
  "and_then (and_then (invoke (fan_in_fn_call responses) (f responses)) py_await)
     (\<lambda>v. returning (PStr (py_str v))) s1 =
     (case f responses (world s1) of
        (Inl e, w2) \<Rightarrow>
          (Inl e, s1\<lparr>calls := calls s1 @ [fan_in_fn_call responses], world := w2\<rparr>)
      | (Inr (NotAwaitable v), w2) \<Rightarrow>
          (Inl (TypeError ''object can't be used in 'await' expression''),
           s1\<lparr>calls := calls s1 @ [fan_in_fn_call responses], world := w2\<rparr>)
      | (Inr (Awaitable c), w2) \<Rightarrow>
          (case c w2 of
             (Inl e, w3) \<Rightarrow>
               (Inl e, s1\<lparr>calls := calls s1 @ [fan_in_fn_call responses], world := w3\<rparr>)
           | (Inr v, w3) \<Rightarrow>
               (Inr (PStr (py_str v)),
                s1\<lparr>calls := calls s1 @ [fan_in_fn_call responses], world := w3\<rparr>)))"
  by (simp add: and_then_def invoke_def py_await_def returning_def
      split: prod.splits sum.splits returned.splits)

lemma function_two_phase:
  assumes "fan_out (self s) = Bound fo"
    and "FanOut_generate fo message p (world s) = (Inr responses, w1)"
    and "fan_in_fn (self s) = Bound (Some f)"
  shows "calls (snd (ParallelLLM_generate message p s)) =
           calls s @ [FanOut_generate_call message p, fan_in_fn_call responses]"
    and "calls (snd (ParallelLLM_generate_str message p s)) =
           calls s @ [FanOut_generate_call message p, fan_in_fn_call responses]"
    and "calls (snd (ParallelLLM_generate_structured message rm p s)) =
           calls s @ [FanOut_generate_call message p, fan_in_fn_call responses]"
proof -
  show "calls (snd (ParallelLLM_generate message p s)) =
          calls s @ [FanOut_generate_call message p, fan_in_fn_call responses]"
    by (simp add: generate_function [OF assms] fn_combine_calls)
  show "calls (snd (ParallelLLM_generate_str message p s)) =
          calls s @ [FanOut_generate_call message p, fan_in_fn_call responses]"
    by (simp add: generate_str_function [OF assms] str_combine_calls)
  show "calls (snd (ParallelLLM_generate_structured message rm p s)) =
          calls s @ [FanOut_generate_call message p, fan_in_fn_call responses]"
    by (simp add: generate_structured_function [OF assms] fn_combine_calls)
qed

lemma fan_out_call_first:
  assumes "fan_out (self s) = Bound fo"
  shows "take (Suc (length (calls s))) (calls (snd (ParallelLLM_generate message p s)))
           = calls s @ [FanOut_generate_call message p]"
    and "take (Suc (length (calls s))) (calls (snd (ParallelLLM_generate_str message p s)))
           = calls s @ [FanOut_generate_call message p]"
    and "take (Suc (length (calls s)))
           (calls (snd (ParallelLLM_generate_structured message rm p s)))
           = calls s @ [FanOut_generate_call message p]"
  using assms
  by (auto simp: ParallelLLM_generate_def ParallelLLM_generate_str_def
      ParallelLLM_generate_structured_def fan_out_phase_def and_then_def getattr_def invoke_def
      fan_in_fn_truthy_def await_fan_in_fn_def py_await_def returning_def
      split: attr.splits prod.splits sum.splits option.splits returned.splits)

section \<open>The instances of the examples\<close>

lemma units_ABC:
  assumes "FanOut_init jitter (Some [unit_A, unit_B, unit_C]) None None None = Inr fo"
  shows "FanOut_generate fo message p w = (Inr [PStr ''A'', PStr ''B'', PStr ''C''], w)"
proof -
  have c: "completion_order (jitter w) (length [PStr ''A'', PStr ''B'', PStr ''C''])"
    by (auto simp: completion_order_def jitter_def)
  have "FanOut_generate fo message p w
          = (FanOut_join (jitter w) (map Inr [PStr ''A'', PStr ''B'', PStr ''C'']), w)"
    using FanOut_init_Inr(2) [OF assms, of message p w]
    by (simp add: FanOut_units_def unit_A_def unit_B_def unit_C_def)
  moreover have "FanOut_join (jitter w) (map Inr [PStr ''A'', PStr ''B'', PStr ''C''])
          = Inr [PStr ''A'', PStr ''B'', PStr ''C'']"
    by (rule FanOut_join_all_ok [OF c])
  ultimately show ?thesis by (simp only:)
qed

lemma function_instance_ABC:
  "\<exists>inst fo.
     ParallelLLM_init base_init new_aggregator (FanOut_init jitter) (Callable f)
       (Some [unit_A, unit_B, unit_C]) None None None = Inr inst
     \<and> fan_out inst = Bound fo
     \<and> fan_in_fn inst = Bound (Some f)
     \<and> (\<forall>message p w.
          FanOut_generate fo message p w = (Inr [PStr ''A'', PStr ''B'', PStr ''C''], w))"
proof -
  obtain fo :: "nat FanOut" where
    fo: "FanOut_init jitter (Some [unit_A, unit_B, unit_C]) None None None = Inr fo"
    by (simp add: FanOut_init_def no_units_def FanOut_units_def)
  have b: "base_init None = Inr base_instance" by (simp add: base_init_def)
  note i = init_Callable [where super_init = base_init and new_FanOut = "FanOut_init jitter"
      and ex = None and lf = None and agents = "Some [unit_A, unit_B, unit_C]" and fns = None
      and new_FanInLLM = new_aggregator and f = f, OF b fo]
  let ?inst = "base_instance\<lparr>llm_factory := Bound None, fan_in_agent := Bound (Callable f),
      fan_out_agents := Bound (Some [unit_A, unit_B, unit_C]), fan_out_functions := Bound None,
      history := Bound None, fan_in_fn := Bound (Some f), fan_out := Bound fo\<rparr>"
  show ?thesis
    by (rule exI [of _ ?inst], rule exI [of _ fo], simp add: i units_ABC [OF fo])
qed

lemma aggregator_instance_ABC:
  "\<exists>inst fo fi.
     ParallelLLM_init base_init new_aggregator (FanOut_init jitter) (AggregatorAgent aggregator)
       (Some [unit_A, unit_B, unit_C]) None None None = Inr inst
     \<and> fan_out inst = Bound fo
     \<and> fan_in_fn inst = Unbound
     \<and> fan_in inst = Bound fi
     \<and> (\<forall>message p w.
          FanOut_generate fo message p w = (Inr [PStr ''A'', PStr ''B'', PStr ''C''], w))"
proof -
  obtain fo :: "nat FanOut" where
    fo: "FanOut_init jitter (Some [unit_A, unit_B, unit_C]) None None None = Inr fo"
    by (simp add: FanOut_init_def no_units_def FanOut_units_def)
  obtain fi :: "nat FanInLLM" where fi: "new_aggregator aggregator None None = Inr fi"
    by (simp add: new_aggregator_def)
  have b: "base_init None = Inr base_instance" by (simp add: base_init_def)
  note i = init_AggregatorAgent [where super_init = base_init
      and new_FanInLLM = new_aggregator and new_FanOut = "FanOut_init jitter" and ex = None
      and lf = None and a = aggregator and agents = "Some [unit_A, unit_B, unit_C]"
      and fns = None, OF b fi fo]
  let ?inst = "base_instance\<lparr>llm_factory := Bound None,
      fan_in_agent := Bound (AggregatorAgent aggregator),
      fan_out_agents := Bound (Some [unit_A, unit_B, unit_C]), fan_out_functions := Bound None,
      history := Bound None, fan_in := Bound fi, fan_out := Bound fo\<rparr>"
  show ?thesis
    by (rule exI [of _ ?inst], rule exI [of _ fo], rule exI [of _ fi])
      (simp add: i units_ABC [OF fo] base_instance_def)
qed

section \<open>The structured mode\<close>

text \<open>
  C5: after a fan-out that returned \<open>responses\<close>, on an instance whose \<open>fan_in_fn\<close> is a
  function, \<open>generate_structured\<close> calls the function on \<open>responses\<close> and awaits what it
  returns. The awaited outcome, a value or a raise, is the outcome of the method as it is,
  for every response model; a raise of the function itself is raised; what the function
  returns, when it is not awaitable, makes the \<open>await\<close> raise \<open>TypeError\<close>.
\<close>

theorem generate_structured_function_outcome:
  assumes "fan_out (self s) = Bound fo"
    and "FanOut_generate fo message p (world s) = (Inr responses, w1)"
    and "fan_in_fn (self s) = Bound (Some f)"
  shows "ParallelLLM_generate_structured message rm p s =
           (case f responses w1 of
              (Inl e, w2) \<Rightarrow>
                (Inl e,
                 s\<lparr>calls := calls s @ [FanOut_generate_call message p, fan_in_fn_call responses],
                   world := w2\<rparr>)
            | (Inr (NotAwaitable v), w2) \<Rightarrow>
                (Inl (TypeError ''object can't be used in 'await' expression''),
                 s\<lparr>calls := calls s @ [FanOut_generate_call message p, fan_in_fn_call responses],
                   world := w2\<rparr>)
            | (Inr (Awaitable c), w2) \<Rightarrow>
                (case c w2 of
                   (x, w3) \<Rightarrow>
                     (x, s\<lparr>calls := calls s @ [FanOut_generate_call message p,
                                               fan_in_fn_call responses],
                           world := w3\<rparr>)))"
  by (simp add: generate_structured_function [OF assms] fn_combine_total
      split: prod.splits sum.splits returned.splits)

text \<open>The instance that \<open>__init__\<close> builds for a coroutine function over three units.\<close>

theorem generate_structured_function_outcome_witness:
  "(case ParallelLLM_init base_init new_aggregator (FanOut_init jitter) (Callable join_fn)
           (Some [unit_A, unit_B, unit_C]) None None None of
      Inl e \<Rightarrow> False
    | Inr inst \<Rightarrow>
        ParallelLLM_generate_structured (PStr ''X'') ''Verdict'' default_params
          \<lparr>self = inst, calls = [], world = 0\<rparr>
        = (Inr (PStr ''A|B|C''),
           \<lparr>self = inst,
            calls = [FanOut_generate_call (PStr ''X'') default_params,
                     fan_in_fn_call [PStr ''A'', PStr ''B'', PStr ''C'']],
            world = 1\<rparr>))"
proof -
  from function_instance_ABC [of join_fn] obtain inst fo where
    i: "ParallelLLM_init base_init new_aggregator (FanOut_init jitter) (Callable join_fn)
          (Some [unit_A, unit_B, unit_C]) None None None = Inr inst"
    and o: "fan_out inst = Bound fo"
    and n: "fan_in_fn inst = Bound (Some join_fn)"
    and g: "\<forall>message p w.
          FanOut_generate fo message p w = (Inr [PStr ''A'', PStr ''B'', PStr ''C''], w)"
    by blast
  let ?s = "\<lparr>self = inst, calls = [], world = 0::nat\<rparr>"
  have h1: "fan_out (self ?s) = Bound fo" using o by simp
  have h2: "FanOut_generate fo (PStr ''X'') default_params (world ?s)
              = (Inr [PStr ''A'', PStr ''B'', PStr ''C''], 0)"
    using g by simp
  have h3: "fan_in_fn (self ?s) = Bound (Some join_fn)" using n by simp
  show ?thesis
    using generate_structured_function_outcome [OF h1 h2 h3, of "''Verdict''"]
    by (simp add: i join_fn_def)
qed

text \<open>
  A function that returns the joined text directly: the method raises and the text is not
  returned.
\<close>

theorem generate_structured_sync_function_TypeError:
  "(case ParallelLLM_init base_init new_aggregator (FanOut_init jitter) (Callable join_sync)
           (Some [unit_A, unit_B, unit_C]) None None None of
      Inl e \<Rightarrow> False
    | Inr inst \<Rightarrow>
        fst (join_sync [PStr ''A'', PStr ''B'', PStr ''C''] 0)
          = Inr (NotAwaitable (PStr ''A|B|C''))
        \<and> fst (ParallelLLM_generate_structured (PStr ''X'') ''Verdict'' default_params
             \<lparr>self = inst, calls = [], world = 0\<rparr>)
          = Inl (TypeError ''object can't be used in 'await' expression'')
        \<and> fst (ParallelLLM_generate_structured (PStr ''X'') ''Verdict'' default_params
             \<lparr>self = inst, calls = [], world = 0\<rparr>)
          \<noteq> Inr (PStr ''A|B|C''))"
proof -
  from function_instance_ABC [of join_sync] obtain inst fo where
    i: "ParallelLLM_init base_init new_aggregator (FanOut_init jitter) (Callable join_sync)
          (Some [unit_A, unit_B, unit_C]) None None None = Inr inst"
    and o: "fan_out inst = Bound fo"
    and n: "fan_in_fn inst = Bound (Some join_sync)"
    and g: "\<forall>message p w.
          FanOut_generate fo message p w = (Inr [PStr ''A'', PStr ''B'', PStr ''C''], w)"
    by blast
  let ?s = "\<lparr>self = inst, calls = [], world = 0::nat\<rparr>"
  have h1: "fan_out (self ?s) = Bound fo" using o by simp
  have h2: "FanOut_generate fo (PStr ''X'') default_params (world ?s)
              = (Inr [PStr ''A'', PStr ''B'', PStr ''C''], 0)"
    using g by simp
  have h3: "fan_in_fn (self ?s) = Bound (Some join_sync)" using n by simp
  show ?thesis
    by (simp add: i generate_structured_function [OF h1 h2 h3] fn_combine_total join_sync_def)
qed

section \<open>The string mode\<close>

text \<open>
  C4: after a fan-out that returned \<open>responses\<close>, on an instance whose \<open>fan_in_fn\<close> is a
  function, \<open>generate_str\<close> calls the function on \<open>responses\<close> and awaits what it returns.
  An awaited value \<open>v\<close> comes back as the string \<open>str(v)\<close>, where \<open>generate\<close> gives \<open>v\<close>
  itself; a raise of the function or of the awaited coroutine is raised; what the function
  returns, when it is not awaitable, makes the \<open>await\<close> raise \<open>TypeError\<close>. Whatever
  \<open>generate_str\<close> returns is a string.
\<close>

theorem generate_str_function_text:
  assumes "fan_out (self s) = Bound fo"
    and "FanOut_generate fo message p (world s) = (Inr responses, w1)"
    and "fan_in_fn (self s) = Bound (Some f)"
  shows "ParallelLLM_generate_str message p s =
           (case f responses w1 of
              (Inl e, w2) \<Rightarrow>
                (Inl e,
                 s\<lparr>calls := calls s @ [FanOut_generate_call message p, fan_in_fn_call responses],
                   world := w2\<rparr>)
            | (Inr (NotAwaitable v), w2) \<Rightarrow>
                (Inl (TypeError ''object can't be used in 'await' expression''),
                 s\<lparr>calls := calls s @ [FanOut_generate_call message p, fan_in_fn_call responses],
                   world := w2\<rparr>)
            | (Inr (Awaitable c), w2) \<Rightarrow>
                (case c w2 of
                   (Inl e, w3) \<Rightarrow>
                     (Inl e,
                      s\<lparr>calls := calls s @ [FanOut_generate_call message p,
                                            fan_in_fn_call responses],
                        world := w3\<rparr>)
                 | (Inr v, w3) \<Rightarrow>
                     (Inr (PStr (py_str v)),
                      s\<lparr>calls := calls s @ [FanOut_generate_call message p,
                                            fan_in_fn_call responses],
                        world := w3\<rparr>)))
       \<and> (case fst (ParallelLLM_generate_str message p s) of
            Inl e \<Rightarrow> True
          | Inr r \<Rightarrow> is_str r)
       \<and> fst (ParallelLLM_generate_str message p s) =
           (case fst (ParallelLLM_generate message p s) of
              Inl e \<Rightarrow> Inl e
            | Inr v \<Rightarrow> Inr (PStr (py_str v)))"
proof (intro conjI)
  show "ParallelLLM_generate_str message p s =
           (case f responses w1 of
              (Inl e, w2) \<Rightarrow>
                (Inl e,
                 s\<lparr>calls := calls s @ [FanOut_generate_call message p, fan_in_fn_call responses],
                   world := w2\<rparr>)
            | (Inr (NotAwaitable v), w2) \<Rightarrow>
                (Inl (TypeError ''object can't be used in 'await' expression''),
                 s\<lparr>calls := calls s @ [FanOut_generate_call message p, fan_in_fn_call responses],
                   world := w2\<rparr>)
            | (Inr (Awaitable c), w2) \<Rightarrow>
                (case c w2 of
                   (Inl e, w3) \<Rightarrow>
                     (Inl e,
                      s\<lparr>calls := calls s @ [FanOut_generate_call message p,
                                            fan_in_fn_call responses],
                        world := w3\<rparr>)
                 | (Inr v, w3) \<Rightarrow>
                     (Inr (PStr (py_str v)),
                      s\<lparr>calls := calls s @ [FanOut_generate_call message p,
                                            fan_in_fn_call responses],
                        world := w3\<rparr>)))"
    by (simp add: generate_str_function [OF assms] str_combine_total
        split: prod.splits sum.splits returned.splits)
  show "case fst (ParallelLLM_generate_str message p s) of Inl e \<Rightarrow> True | Inr r \<Rightarrow> is_str r"
    using generate_str_is_str [OF assms(3), of message p]
    by (cases "fst (ParallelLLM_generate_str message p s)") simp_all
  show "fst (ParallelLLM_generate_str message p s) =
           (case fst (ParallelLLM_generate message p s) of
              Inl e \<Rightarrow> Inl e
            | Inr v \<Rightarrow> Inr (PStr (py_str v)))"
    by (simp add: generate_str_function [OF assms] generate_function [OF assms]
        and_then_def [of "and_then (invoke (fan_in_fn_call responses) (f responses)) py_await"]
        returning_def split: prod.splits sum.splits)
qed

text \<open>
  The instance that \<open>__init__\<close> builds for a coroutine function whose result is a boolean.
\<close>

theorem generate_str_function_text_witness:
  "(case ParallelLLM_init base_init new_aggregator (FanOut_init jitter) (Callable count_fn)
           (Some [unit_A, unit_B, unit_C]) None None None of
      Inl e \<Rightarrow> False
    | Inr inst \<Rightarrow>
        ParallelLLM_generate_str (PStr ''X'') default_params \<lparr>self = inst, calls = [], world = 0\<rparr>
        = (Inr (PStr ''True''),
           \<lparr>self = inst,
            calls = [FanOut_generate_call (PStr ''X'') default_params,
                     fan_in_fn_call [PStr ''A'', PStr ''B'', PStr ''C'']],
            world = 1\<rparr>)
        \<and> fst (ParallelLLM_generate (PStr ''X'') default_params
             \<lparr>self = inst, calls = [], world = 0\<rparr>) = Inr (PBool True))"
proof -
  from function_instance_ABC [of count_fn] obtain inst fo where
    i: "ParallelLLM_init base_init new_aggregator (FanOut_init jitter) (Callable count_fn)
          (Some [unit_A, unit_B, unit_C]) None None None = Inr inst"
    and o: "fan_out inst = Bound fo"
    and n: "fan_in_fn inst = Bound (Some count_fn)"
    and g: "\<forall>message p w.
          FanOut_generate fo message p w = (Inr [PStr ''A'', PStr ''B'', PStr ''C''], w)"
    by blast
  let ?s = "\<lparr>self = inst, calls = [], world = 0::nat\<rparr>"
  have h1: "fan_out (self ?s) = Bound fo" using o by simp
  have h2: "FanOut_generate fo (PStr ''X'') default_params (world ?s)
              = (Inr [PStr ''A'', PStr ''B'', PStr ''C''], 0)"
    using g by simp
  have h3: "fan_in_fn (self ?s) = Bound (Some count_fn)" using n by simp
  have r: "fst (ParallelLLM_generate (PStr ''X'') default_params ?s) = Inr (PBool True)"
    by (simp add: generate_function [OF h1 h2 h3] fn_combine_total count_fn_def)
  show ?thesis
    using generate_str_function_text [OF h1 h2 h3] r
    by (simp add: i count_fn_def)
qed

text \<open>A function that returns the boolean directly: no string is returned.\<close>

theorem generate_str_sync_function_TypeError:
  "(case ParallelLLM_init base_init new_aggregator (FanOut_init jitter) (Callable count_sync)
           (Some [unit_A, unit_B, unit_C]) None None None of
      Inl e \<Rightarrow> False
    | Inr inst \<Rightarrow>
        fst (count_sync [PStr ''A'', PStr ''B'', PStr ''C''] 0)
          = Inr (NotAwaitable (PBool True))
        \<and> fst (ParallelLLM_generate_str (PStr ''X'') default_params
             \<lparr>self = inst, calls = [], world = 0\<rparr>)
          = Inl (TypeError ''object can't be used in 'await' expression''))"
proof -
  from function_instance_ABC [of count_sync] obtain inst fo where
    i: "ParallelLLM_init base_init new_aggregator (FanOut_init jitter) (Callable count_sync)
          (Some [unit_A, unit_B, unit_C]) None None None = Inr inst"
    and o: "fan_out inst = Bound fo"
    and n: "fan_in_fn inst = Bound (Some count_sync)"
    and g: "\<forall>message p w.
          FanOut_generate fo message p w = (Inr [PStr ''A'', PStr ''B'', PStr ''C''], w)"
    by blast
  let ?s = "\<lparr>self = inst, calls = [], world = 0::nat\<rparr>"
  have h1: "fan_out (self ?s) = Bound fo" using o by simp
  have h2: "FanOut_generate fo (PStr ''X'') default_params (world ?s)
              = (Inr [PStr ''A'', PStr ''B'', PStr ''C''], 0)"
    using g by simp
  have h3: "fan_in_fn (self ?s) = Bound (Some count_sync)" using n by simp
  show ?thesis
    by (simp add: i generate_str_function [OF h1 h2 h3] str_combine_total count_sync_def)
qed

section \<open>The two phases of a call\<close>

text \<open>
  C3: on the instance that \<open>__init__\<close> builds for an aggregator agent over three units, each
  of the three methods calls the fan-out stage with the message and the parameters it was
  given and then makes no combining call: reading \<open>fan_in_fn\<close>, which \<open>__init__\<close> left
  unbound, raises first. On the instance built for a reduction function over the same units
  the combining call follows the fan-out call, on the responses in the order of the units.
\<close>

theorem aggregator_instance_no_combine:
  "(case ParallelLLM_init base_init new_aggregator (FanOut_init jitter)
           (AggregatorAgent aggregator) (Some [unit_A, unit_B, unit_C]) None None None of
      Inl e \<Rightarrow> False
    | Inr inst \<Rightarrow>
        calls (snd (ParallelLLM_generate (PStr ''X'') default_params
          \<lparr>self = inst, calls = [], world = 0\<rparr>))
          = [FanOut_generate_call (PStr ''X'') default_params]
        \<and> calls (snd (ParallelLLM_generate_str (PStr ''X'') default_params
          \<lparr>self = inst, calls = [], world = 0\<rparr>))
          = [FanOut_generate_call (PStr ''X'') default_params]
        \<and> calls (snd (ParallelLLM_generate_structured (PStr ''X'') ''Verdict'' default_params
          \<lparr>self = inst, calls = [], world = 0\<rparr>))
          = [FanOut_generate_call (PStr ''X'') default_params])
   \<and> (case ParallelLLM_init base_init new_aggregator (FanOut_init jitter)
           (Callable join_fn) (Some [unit_A, unit_B, unit_C]) None None None of
      Inl e \<Rightarrow> False
    | Inr inst \<Rightarrow>
        calls (snd (ParallelLLM_generate (PStr ''X'') default_params
          \<lparr>self = inst, calls = [], world = 0\<rparr>))
          = [FanOut_generate_call (PStr ''X'') default_params,
             fan_in_fn_call [PStr ''A'', PStr ''B'', PStr ''C'']]
        \<and> calls (snd (ParallelLLM_generate_str (PStr ''X'') default_params
          \<lparr>self = inst, calls = [], world = 0\<rparr>))
          = [FanOut_generate_call (PStr ''X'') default_params,
             fan_in_fn_call [PStr ''A'', PStr ''B'', PStr ''C'']]
        \<and> calls (snd (ParallelLLM_generate_structured (PStr ''X'') ''Verdict'' default_params
          \<lparr>self = inst, calls = [], world = 0\<rparr>))
          = [FanOut_generate_call (PStr ''X'') default_params,
             fan_in_fn_call [PStr ''A'', PStr ''B'', PStr ''C'']])"
proof (rule conjI)
  from aggregator_instance_ABC obtain inst fo where
    i: "ParallelLLM_init base_init new_aggregator (FanOut_init jitter)
          (AggregatorAgent aggregator) (Some [unit_A, unit_B, unit_C]) None None None = Inr inst"
    and o: "fan_out inst = Bound fo"
    and u: "fan_in_fn inst = Unbound"
    and g: "\<forall>message p w.
          FanOut_generate fo message p w = (Inr [PStr ''A'', PStr ''B'', PStr ''C''], w)"
    by blast
  let ?s = "\<lparr>self = inst, calls = [], world = 0::nat\<rparr>"
  have h1: "fan_out (self ?s) = Bound fo" using o by simp
  have h2: "FanOut_generate fo (PStr ''X'') default_params (world ?s)
              = (Inr [PStr ''A'', PStr ''B'', PStr ''C''], 0)"
    using g by simp
  have h3: "fan_in_fn (self ?s) = Unbound" using u by simp
  show "case ParallelLLM_init base_init new_aggregator (FanOut_init jitter)
           (AggregatorAgent aggregator) (Some [unit_A, unit_B, unit_C]) None None None of
      Inl e \<Rightarrow> False
    | Inr inst \<Rightarrow>
        calls (snd (ParallelLLM_generate (PStr ''X'') default_params
          \<lparr>self = inst, calls = [], world = 0\<rparr>))
          = [FanOut_generate_call (PStr ''X'') default_params]
        \<and> calls (snd (ParallelLLM_generate_str (PStr ''X'') default_params
          \<lparr>self = inst, calls = [], world = 0\<rparr>))
          = [FanOut_generate_call (PStr ''X'') default_params]
        \<and> calls (snd (ParallelLLM_generate_structured (PStr ''X'') ''Verdict'' default_params
          \<lparr>self = inst, calls = [], world = 0\<rparr>))
          = [FanOut_generate_call (PStr ''X'') default_params]"
    by (simp add: i generate_unbound [OF h1 h2 h3])
next
  from function_instance_ABC [of join_fn] obtain inst fo where
    i: "ParallelLLM_init base_init new_aggregator (FanOut_init jitter) (Callable join_fn)
          (Some [unit_A, unit_B, unit_C]) None None None = Inr inst"
    and o: "fan_out inst = Bound fo"
    and n: "fan_in_fn inst = Bound (Some join_fn)"
    and g: "\<forall>message p w.
          FanOut_generate fo message p w = (Inr [PStr ''A'', PStr ''B'', PStr ''C''], w)"
    by blast
  let ?s = "\<lparr>self = inst, calls = [], world = 0::nat\<rparr>"
  have h1: "fan_out (self ?s) = Bound fo" using o by simp
  have h2: "FanOut_generate fo (PStr ''X'') default_params (world ?s)
              = (Inr [PStr ''A'', PStr ''B'', PStr ''C''], 0)"
    using g by simp
  have h3: "fan_in_fn (self ?s) = Bound (Some join_fn)" using n by simp
  show "case ParallelLLM_init base_init new_aggregator (FanOut_init jitter)
           (Callable join_fn) (Some [unit_A, unit_B, unit_C]) None None None of
      Inl e \<Rightarrow> False
    | Inr inst \<Rightarrow>
        calls (snd (ParallelLLM_generate (PStr ''X'') default_params
          \<lparr>self = inst, calls = [], world = 0\<rparr>))
          = [FanOut_generate_call (PStr ''X'') default_params,
             fan_in_fn_call [PStr ''A'', PStr ''B'', PStr ''C'']]
        \<and> calls (snd (ParallelLLM_generate_str (PStr ''X'') default_params
          \<lparr>self = inst, calls = [], world = 0\<rparr>))
          = [FanOut_generate_call (PStr ''X'') default_params,
             fan_in_fn_call [PStr ''A'', PStr ''B'', PStr ''C'']]
        \<and> calls (snd (ParallelLLM_generate_structured (PStr ''X'') ''Verdict'' default_params
          \<lparr>self = inst, calls = [], world = 0\<rparr>))
          = [FanOut_generate_call (PStr ''X'') default_params,
             fan_in_fn_call [PStr ''A'', PStr ''B'', PStr ''C'']]"
    using function_two_phase [OF h1 h2 h3]
    by (simp add: i)
qed

section \<open>Generation parameters\<close>

text \<open>
  C7: on the instance that \<open>__init__\<close> builds for an aggregator agent, called with
  parameters that all differ from the defaults, each of the three methods calls the fan-out
  stage with exactly those parameters, and the stage spends the token budget they carry. The
  method then raises on \<open>fan_in_fn\<close>: the aggregator is not invoked and the parameters do not
  reach it.
\<close>

theorem aggregator_instance_params_not_delivered:
  "(case ParallelLLM_init base_init new_aggregator new_fan_out_metered
           (AggregatorAgent aggregator) (Some [unit_A, unit_B]) None None None of
      Inl e \<Rightarrow> False
    | Inr inst \<Rightarrow>
        ParallelLLM_generate (PStr ''X'') custom_params \<lparr>self = inst, calls = [], world = 0\<rparr>
          = (Inl (AttributeError ''fan_in_fn''),
             \<lparr>self = inst, calls = [FanOut_generate_call (PStr ''X'') custom_params],
              world = 64\<rparr>)
        \<and> ParallelLLM_generate_str (PStr ''X'') custom_params
            \<lparr>self = inst, calls = [], world = 0\<rparr>
          = (Inl (AttributeError ''fan_in_fn''),
             \<lparr>self = inst, calls = [FanOut_generate_call (PStr ''X'') custom_params],
              world = 64\<rparr>)
        \<and> ParallelLLM_generate_structured (PStr ''X'') ''Verdict'' custom_params
            \<lparr>self = inst, calls = [], world = 0\<rparr>
          = (Inl (AttributeError ''fan_in_fn''),
             \<lparr>self = inst, calls = [FanOut_generate_call (PStr ''X'') custom_params],
              world = 64\<rparr>))"
proof -
  obtain fi :: "nat FanInLLM" where fi: "new_aggregator aggregator None None = Inr fi"
    by (simp add: new_aggregator_def)
  have b: "base_init None = Inr base_instance" by (simp add: base_init_def)
  have fo: "new_fan_out_metered (Some [unit_A, unit_B]) None None None = Inr fan_out_metered"
    by (simp add: new_fan_out_metered_def)
  note i = init_AggregatorAgent [where super_init = base_init
      and new_FanInLLM = new_aggregator and new_FanOut = new_fan_out_metered and ex = None
      and lf = None and a = aggregator and agents = "Some [unit_A, unit_B]"
      and fns = None, OF b fi fo]
  let ?inst = "base_instance\<lparr>llm_factory := Bound None,
      fan_in_agent := Bound (AggregatorAgent aggregator),
      fan_out_agents := Bound (Some [unit_A, unit_B]), fan_out_functions := Bound None,
      history := Bound None, fan_in := Bound fi, fan_out := Bound fan_out_metered\<rparr>"
  let ?s = "\<lparr>self = ?inst, calls = [], world = 0::nat\<rparr>"
  have h1: "fan_out (self ?s) = Bound fan_out_metered" by simp
  have h2: "FanOut_generate fan_out_metered (PStr ''X'') custom_params (world ?s)
              = (Inr [PStr ''A'', PStr ''B''], 64)"
    by (simp add: fan_out_metered_def custom_params_def)
  have h3: "fan_in_fn (self ?s) = Unbound" by (simp add: base_instance_def)
  show ?thesis
    by (simp add: i generate_unbound [OF h1 h2 h3])
qed

end
